theory Spec2Isabelle
  imports Complex_Main
begin

section \<open>Python exceptions\<close>

text \<open>
  The exceptions that travel through the code of \<^verbatim>\<open>default.py\<close>,
  \<^verbatim>\<open>contrastive/wandb_logger.py\<close> and \<^verbatim>\<open>contrastive/agents.py\<close>.
  \<open>KeyboardInterrupt\<close> and \<open>SystemExit\<close> derive from Python's \<open>BaseException\<close>
  directly; every other constructor is an instance of \<open>Exception\<close>.
  \<open>OtherException\<close> is any further instance of \<open>Exception\<close> raised by the
  tracking SDK.
\<close>

datatype py_exception =
    ImportError string
  | RuntimeError string
  | AssertionError
  | TypeError string
  | ValueError string
  | OtherException string
  | KeyboardInterrupt
  | SystemExit

text \<open>\<^verbatim>\<open>isinstance(e, Exception)\<close>: what an \<^verbatim>\<open>except Exception\<close> clause catches.\<close>

fun isinstance_Exception :: "py_exception \<Rightarrow> bool" where
  "isinstance_Exception KeyboardInterrupt = False"
| "isinstance_Exception SystemExit = False"
| "isinstance_Exception _ = True"

text \<open>\<^verbatim>\<open>str(e)\<close>, as the f-string \<^verbatim>\<open>{e}\<close> formats it: the message of the exception.\<close>

fun str_exception :: "py_exception \<Rightarrow> string" where
  "str_exception (ImportError m) = m"
| "str_exception (RuntimeError m) = m"
| "str_exception AssertionError = []"
| "str_exception (TypeError m) = m"
| "str_exception (ValueError m) = m"
| "str_exception (OtherException m) = m"
| "str_exception KeyboardInterrupt = []"
| "str_exception SystemExit = []"

section \<open>The configuration object read by the agent assembler\<close>

text \<open>
  The fields of \<^verbatim>\<open>config\<close> that \<^verbatim>\<open>DistributedContrastive.__init__\<close> reads.
  The two fields it compares with 0 are integers, the fields it concatenates into a
  directory name are strings, the fields it branches on are booleans. The code only
  passes the remaining fields on, so their type is the parameter \<open>'c\<close>.
\<close>

record 'c config =
  max_episode_steps :: int
  obs_dim :: int
  start_index :: 'c
  end_index :: 'c
  prefetch_size :: 'c
  local :: bool
  log_dir :: string
  alg_name :: string
  env_name :: string
  add_uid :: bool
  max_number_of_steps :: 'c
  batch_size :: 'c
  learning_rate :: 'c
  actor_learning_rate :: 'c
  discount :: 'c
  tau :: 'c
  use_td :: 'c
  use_cpc :: 'c
  repr_dim :: 'c
  hidden_layer_sizes :: 'c
  use_wandb :: bool
  wandb_project :: string
  wandb_entity :: "string option"
  wandb_group :: "string option"
  wandb_name :: "string option"
  wandb_tags :: "string list option"
  wandb_notes :: "string option"
  wandb_mode :: string

text \<open>The values of the experiment-tracking metadata dictionary.\<close>

datatype 'c py_value = PyStr string | PyInt int | PyObj 'c

type_synonym 'c py_dict = "(string \<times> 'c py_value) list"

section \<open>The tracking SDK as the code sees it\<close>

text \<open>The keyword arguments of \<^verbatim>\<open>wandb.init\<close>, as \<^verbatim>\<open>WandbLogger.__init__\<close> passes them.\<close>

record 'c init_args =
  init_project :: string
  init_entity :: "string option"
  init_config :: "'c py_dict option"
  init_group :: "string option"
  init_name :: "string option"
  init_tags :: "string list option"
  init_notes :: "string option"
  init_mode :: string
  init_reinit :: bool

text \<open>A run object of the SDK is a handle.\<close>

type_synonym run = nat

text \<open>
  What the two modules find around them: the module-level flags
  \<^verbatim>\<open>WANDB_LOGGER_AVAILABLE\<close> (of \<^verbatim>\<open>default.py\<close>) and \<^verbatim>\<open>WANDB_AVAILABLE\<close>
  (of \<^verbatim>\<open>wandb_logger.py\<close>), the global \<^verbatim>\<open>wandb.run\<close> at the time of the call,
  the outcome of \<^verbatim>\<open>wandb.init\<close> on given arguments (a run, \<^verbatim>\<open>None\<close>, or an exception),
  and the clock \<^verbatim>\<open>time.time()\<close>.
\<close>

record 'c wandb_env =
  WANDB_LOGGER_AVAILABLE :: bool
  WANDB_AVAILABLE :: bool
  wandb_run :: "run option"
  wandb_init :: "'c init_args \<Rightarrow> py_exception + run option"
  time_time :: real

text \<open>What a call leaves behind: lines printed and calls into the SDK.\<close>

datatype 'c event = Print string | WandbInit "'c init_args"

section \<open>\<^verbatim>\<open>contrastive/wandb_logger.py\<close>: the class \<^verbatim>\<open>WandbLogger\<close>\<close>

record wandb_logger =
  self_label :: string
  self_time :: real
  self_run :: "run option"

text \<open>Lines 79 to 83: the check on \<^verbatim>\<open>self._run\<close> that ends the constructor.\<close>

definition check_run ::
  "string \<Rightarrow> real \<Rightarrow> run option \<Rightarrow> 'c event list \<Rightarrow> (py_exception + wandb_logger) \<times> 'c event list" where
  "check_run lbl t r evs =
     (if r = None then
        (Inl (RuntimeError
           ''Wandb run not initialized. Either set init_wandb=True or initialize wandb before creating the logger.''),
         evs)
      else (Inr \<lparr>self_label = lbl, self_time = t, self_run = r\<rparr>, evs))"

definition WandbLogger_init ::
  "'c wandb_env \<Rightarrow> string \<Rightarrow> string \<Rightarrow> string option \<Rightarrow> 'c py_dict option \<Rightarrow> string option \<Rightarrow>
   string option \<Rightarrow> string list option \<Rightarrow> string option \<Rightarrow> string \<Rightarrow> bool \<Rightarrow>
   (py_exception + wandb_logger) \<times> 'c event list" where
  "WandbLogger_init env lbl project entity config grp name tags notes mode init_wandb =
     (if \<not> WANDB_AVAILABLE env then
        (Inl (ImportError ''wandb is not installed. Install it with: pip install wandb''), [])
      else if init_wandb then
        (if wandb_run env = None then
           (let args = \<lparr>init_project = project, init_entity = entity, init_config = config,
                        init_group = grp, init_name = name, init_tags = tags,
                        init_notes = notes, init_mode = mode, init_reinit = False\<rparr>
            in case wandb_init env args of
                 Inl e \<Rightarrow> (Inl e, [WandbInit args])
               | Inr r \<Rightarrow> check_run lbl (time_time env) r [WandbInit args])
         else check_run lbl (time_time env) (wandb_run env) [])
      else check_run lbl (time_time env) (wandb_run env) [])"

text \<open>
  A metrics dictionary maps string keys to values; a value is \<^verbatim>\<open>None\<close> (\<open>None\<close>)
  or an object (\<open>Some v\<close>). The dictionary keeps its insertion order, so it is an
  association list; its keys are distinct.
\<close>

type_synonym 'v metrics = "(string \<times> 'v option) list"

text \<open>\<^verbatim>\<open>data.get(key, None)\<close>.\<close>

definition dict_get :: "'v metrics \<Rightarrow> string \<Rightarrow> 'v option" where
  "dict_get data key = (case map_of data key of None \<Rightarrow> None | Some v \<Rightarrow> v)"

text \<open>Line 96: the dictionary comprehension that prefixes every key with the label.\<close>

definition prefixed_data :: "string \<Rightarrow> 'v metrics \<Rightarrow> 'v metrics" where
  "prefixed_data lbl data = map (\<lambda>(key, val). (lbl @ ''/'' @ key, val)) data"

text \<open>Lines 98 to 103: the step is looked up under three keys in turn.\<close>

definition extract_step :: "'v metrics \<Rightarrow> 'v option" where
  "extract_step data =
     (let step = dict_get data ''steps'';
          step = (if step = None then dict_get data ''learner_steps'' else step);
          step = (if step = None then dict_get data ''actor_steps'' else step)
      in step)"

text \<open>A call of \<^verbatim>\<open>wandb.log\<close>: the dictionary logged and the \<^verbatim>\<open>step\<close> keyword, if given.\<close>

datatype 'v wandb_call = WandbLog "'v metrics" "int option"

text \<open>
  \<^verbatim>\<open>WandbLogger.write\<close>. Python's \<^verbatim>\<open>int\<close> on the objects that metrics hold
  (numbers, arrays of the numerics library) is the parameter \<open>py_int\<close>; it may raise.
  The result is the list of calls made into the SDK, or the exception raised.
\<close>

definition WandbLogger_write ::
  "('v \<Rightarrow> py_exception + int) \<Rightarrow> wandb_logger \<Rightarrow> 'v metrics \<Rightarrow> py_exception + 'v wandb_call list" where
  "WandbLogger_write py_int self data =
     (if self_run self = None then Inr []
      else
        (let prefixed = prefixed_data (self_label self) data
         in case extract_step data of
              Some step \<Rightarrow>
                (case py_int step of
                   Inl e \<Rightarrow> Inl e
                 | Inr n \<Rightarrow> Inr [WandbLog prefixed (Some n)])
            | None \<Rightarrow> Inr [WandbLog prefixed None]))"

section \<open>\<^verbatim>\<open>default.py\<close>: the logger factories\<close>

text \<open>
  The classes of the framework's logging package are data constructors that record
  what they were built from: the code under verification only builds them.
\<close>

datatype print_fn = logging_info | PrintFn string

datatype serialize_fn = to_numpy | fetch_devicearray | SerializeFn string

datatype sink =
    TerminalLogger string print_fn
  | CSVLogger string string bool
  | WandbLogger wandb_logger

datatype logger =
    Dispatcher "sink list" "serialize_fn option"
  | NoneFilter logger
  | AsyncLogger logger
  | TimeFilter logger real

text \<open>The parameters of \<^verbatim>\<open>make_default_logger\<close>, and its defaults.\<close>

record make_default_logger_args =
  label :: string
  save_data :: bool
  save_dir :: string
  add_uid :: bool
  time_delta :: real
  asynchronous :: bool
  print_fn :: "print_fn option"
  serialize_fn :: "serialize_fn option"
  steps_key :: string

text \<open>\<^verbatim>\<open>make_wandb_logger\<close> takes the same parameters and ten more.\<close>

record 'c make_wandb_logger_args = make_default_logger_args +
  use_wandb :: bool
  wandb_project :: string
  wandb_entity :: "string option"
  wandb_group :: "string option"
  wandb_name :: "string option"
  wandb_tags :: "string list option"
  wandb_notes :: "string option"
  wandb_mode :: string
  wandb_config :: "'c py_dict option"
  init_wandb :: bool


definition make_wandb_logger_defaults :: "string \<Rightarrow> 'c make_wandb_logger_args" where
  "make_wandb_logger_defaults lbl =
     \<lparr>label = lbl, save_data = True, save_dir = ''logs'', add_uid = True, time_delta = 1,
      asynchronous = False, print_fn = None, serialize_fn = Some to_numpy, steps_key = ''steps'',
      use_wandb = False, wandb_project = ''contrastive-rl'', wandb_entity = None,
      wandb_group = None, wandb_name = None, wandb_tags = None, wandb_notes = None,
      wandb_mode = ''online'', wandb_config = None, init_wandb = False\<rparr>"

text \<open>
  The constructor of the framework's time filter checks the interval it is given and
  raises \<^verbatim>\<open>ValueError\<close> when it is negative (the framework's message also quotes the
  number). The other classes of the chain store what they are given.
\<close>

definition TimeFilter_init :: "logger \<Rightarrow> real \<Rightarrow> py_exception + logger" where
  "TimeFilter_init l delta =
     (if delta < 0 then Inl (ValueError ''time_delta must be greater than 0'')
      else Inr (TimeFilter l delta))"

text \<open>
  Lines 59 to 66 of \<^verbatim>\<open>make_default_logger\<close> and, word for word, lines 158 to 165 of
  \<^verbatim>\<open>make_wandb_logger\<close>: dispatch to all writers, filter, and return. Nothing here
  catches what the time filter raises.
\<close>

definition dispatch_and_filter ::
  "sink list \<Rightarrow> serialize_fn option \<Rightarrow> bool \<Rightarrow> real \<Rightarrow> py_exception + logger" where
  "dispatch_and_filter loggers ser async delta =
     (let logger = Dispatcher loggers ser;
          logger = NoneFilter logger;
          logger = (if async then AsyncLogger logger else logger)
      in TimeFilter_init logger delta)"

text \<open>Lines 47 to 57 and 121 to 131: the terminal logger and, if data is saved, the CSV logger.\<close>

definition base_loggers :: "string \<Rightarrow> print_fn option \<Rightarrow> bool \<Rightarrow> string \<Rightarrow> bool \<Rightarrow> sink list" where
  "base_loggers lbl pf sd dir uid =
     (let pf' = (case pf of None \<Rightarrow> logging_info | Some f \<Rightarrow> f);
          terminal_logger = TerminalLogger lbl pf';
          loggers = [terminal_logger]
      in if sd then loggers @ [CSVLogger lbl dir uid] else loggers)"


definition make_wandb_logger ::
  "'c wandb_env \<Rightarrow> 'c make_wandb_logger_args \<Rightarrow> (py_exception + logger) \<times> 'c event list" where
  "make_wandb_logger env a =
     (let loggers = base_loggers (label a) (print_fn a) (save_data a) (save_dir a)
                      (make_default_logger_args.add_uid a);
          finish = (\<lambda>ls. dispatch_and_filter ls (serialize_fn a) (asynchronous a) (time_delta a))
      in
      if use_wandb a then
        if \<not> WANDB_LOGGER_AVAILABLE env then
          (finish loggers,
           [Print (''Warning: Wandb logging requested but wandb_logger not available for '' @ label a)])
        else
          (case WandbLogger_init env (label a) (wandb_project a) (wandb_entity a) (wandb_config a)
                  (wandb_group a) (wandb_name a) (wandb_tags a) (wandb_notes a) (wandb_mode a)
                  (init_wandb a) of
             (Inr wandb_logger, evs) \<Rightarrow>
               (finish (loggers @ [WandbLogger wandb_logger]),
                evs @ [Print (''Wandb logging enabled for '' @ label a)])
           | (Inl e, evs) \<Rightarrow>
               if isinstance_Exception e then
                 (finish loggers,
                  evs @ [Print (''Warning: Failed to initialize Wandb logger for '' @ label a @ '': ''
                                @ str_exception e)])
               else (Inl e, evs))
      else (finish loggers, []))"

text \<open>The sinks a logger writes to in the end, and whether its chain holds an asynchronous wrapper.\<close>

fun sinks_of :: "logger \<Rightarrow> sink list" where
  "sinks_of (Dispatcher ls _) = ls"
| "sinks_of (NoneFilter l) = sinks_of l"
| "sinks_of (AsyncLogger l) = sinks_of l"
| "sinks_of (TimeFilter l _) = sinks_of l"

fun has_async :: "logger \<Rightarrow> bool" where
  "has_async (Dispatcher _ _) = False"
| "has_async (NoneFilter l) = has_async l"
| "has_async (AsyncLogger l) = True"
| "has_async (TimeFilter l _) = has_async l"

fun is_wandb_sink :: "sink \<Rightarrow> bool" where
  "is_wandb_sink (WandbLogger _) = True"
| "is_wandb_sink _ = False"

fun is_csv_sink :: "sink \<Rightarrow> bool" where
  "is_csv_sink (CSVLogger _ _ _) = True"
| "is_csv_sink _ = False"

fun is_terminal_sink :: "sink \<Rightarrow> bool" where
  "is_terminal_sink (TerminalLogger _ _) = True"
| "is_terminal_sink _ = False"

fun is_init_event :: "'c event \<Rightarrow> bool" where
  "is_init_event (WandbInit _) = True"
| "is_init_event _ = False"

section \<open>\<^verbatim>\<open>contrastive/agents.py\<close>: the agent assembler\<close>

text \<open>\<^verbatim>\<open>str(seed)\<close>: the decimal digits of an integer, with a minus sign if it is negative.\<close>

fun str_nat :: "nat \<Rightarrow> string" where
  "str_nat n = (if n < 10 then [char_of (48 + n)] else str_nat (n div 10) @ [char_of (48 + n mod 10)])"

declare str_nat.simps [simp del]

definition str_int :: "int \<Rightarrow> string" where
  "str_int i = (if i < 0 then ''-'' @ str_nat (nat (- i)) else str_nat (nat i))"

text \<open>
  The objects of the framework that the assembler builds and hands over. Each
  constructor records the arguments of the call that the source makes, in the order
  of the source. \<open>apply_policy_and_sample_eval\<close> is the source's
  \<^verbatim>\<open>lambda n: networks.apply_policy_and_sample(n, True)\<close>; \<open>EvaluatorFactory\<close> is a
  factory that the caller supplies.
\<close>

datatype 'c observer = SuccessObserver | DistanceObserver int 'c 'c

datatype policy_factory = apply_policy_and_sample | apply_policy_and_sample_eval

datatype ('f, 'c) evaluator_factory =
    default_evaluator_factory 'f 'f policy_factory bool "'c observer list" string bool bool
      string "string option" "string option" string
  | EvaluatorFactory 'f

datatype actor_logger_fn =
  get_default_logger_fn bool real string bool bool string "string option" "string option" string

datatype checkpointing_config = CheckpointingConfig string bool

text \<open>
  \<^verbatim>\<open>functools.partial(make_wandb_logger, ...)\<close> is the record of the arguments it binds;
  \<^verbatim>\<open>print_fn\<close>, which the source leaves unbound, stands at its default.
\<close>

datatype 'c builder = ContrastiveBuilder "'c config" "'c make_wandb_logger_args"

fun logger_fn_of :: "'c builder \<Rightarrow> 'c make_wandb_logger_args" where
  "logger_fn_of (ContrastiveBuilder _ lf) = lf"

text \<open>The arguments of \<^verbatim>\<open>DistributedContrastive.__init__\<close>.\<close>

record ('f, 'c) DistributedContrastive_args =
  environment_factory :: 'f
  environment_factory_fixed_goals :: 'f
  network_factory :: 'f
  config :: "'c config"
  seed :: int
  num_actors :: int
  max_number_of_steps :: "int option"
  log_to_bigtable :: bool
  log_every :: real
  evaluator_factories :: "('f, 'c) evaluator_factory list option"

text \<open>The keyword arguments of the call \<^verbatim>\<open>super().__init__(...)\<close>, lines 131 to 170.\<close>

record ('f, 'c) DistributedLayout_args =
  seed :: int
  environment_factory :: 'f
  environment_factory_fixed_goals :: 'f
  network_factory :: 'f
  builder :: "'c builder"
  policy_network :: policy_factory
  evaluator_factories :: "('f, 'c) evaluator_factory list"
  num_actors :: int
  max_number_of_steps :: "int option"
  prefetch_size :: 'c
  log_to_bigtable :: bool
  actor_logger_fn :: actor_logger_fn
  observers :: "'c observer list"
  checkpointing_config :: checkpointing_config
  config :: "'c config"

text \<open>
  The directory name \<^verbatim>\<open>config.log_dir + config.alg_name + "_" + config.env_name + "_" + str(seed)\<close>,
  which the source writes out four times.
\<close>

definition run_dir :: "'c config \<Rightarrow> int \<Rightarrow> string" where
  "run_dir cfg sd =
     config.log_dir cfg @ config.alg_name cfg @ ''_'' @ config.env_name cfg @ ''_'' @ str_int sd"

text \<open>Lines 43 to 61: the experiment-tracking metadata.\<close>

definition wandb_config_dict :: "'c config \<Rightarrow> int \<Rightarrow> int \<Rightarrow> 'c py_dict option" where
  "wandb_config_dict cfg sd n_actors =
     (if config.use_wandb cfg then
        Some [(''algorithm'', PyStr (config.alg_name cfg)),
              (''environment'', PyStr (config.env_name cfg)),
              (''seed'', PyInt sd),
              (''max_steps'', PyObj (config.max_number_of_steps cfg)),
              (''num_actors'', PyInt n_actors),
              (''batch_size'', PyObj (config.batch_size cfg)),
              (''learning_rate'', PyObj (config.learning_rate cfg)),
              (''actor_learning_rate'', PyObj (config.actor_learning_rate cfg)),
              (''discount'', PyObj (config.discount cfg)),
              (''tau'', PyObj (config.tau cfg)),
              (''use_td'', PyObj (config.use_td cfg)),
              (''use_cpc'', PyObj (config.use_cpc cfg)),
              (''repr_dim'', PyObj (config.repr_dim cfg)),
              (''hidden_layer_sizes'', PyObj (config.hidden_layer_sizes cfg))]
      else None)"

text \<open>Lines 63 to 88: the learner's logger factory.\<close>

definition logger_fn :: "('f, 'c) DistributedContrastive_args \<Rightarrow> 'c make_wandb_logger_args" where
  "logger_fn a =
     (let cfg = DistributedContrastive_args.config a;
          sd = DistributedContrastive_args.seed a
      in \<lparr>label = ''learner'',
          save_data = DistributedContrastive_args.log_to_bigtable a,
          save_dir = run_dir cfg sd,
          add_uid = config.add_uid cfg,
          time_delta = log_every a,
          asynchronous = True,
          print_fn = None,
          serialize_fn = Some fetch_devicearray,
          steps_key = ''learner_steps'',
          use_wandb = config.use_wandb cfg,
          wandb_project = config.wandb_project cfg,
          wandb_entity = config.wandb_entity cfg,
          wandb_group = config.wandb_group cfg,
          wandb_name = config.wandb_name cfg,
          wandb_tags = config.wandb_tags cfg,
          wandb_notes = config.wandb_notes cfg,
          wandb_mode = config.wandb_mode cfg,
          wandb_config = wandb_config_dict cfg sd (DistributedContrastive_args.num_actors a),
          init_wandb = True\<rparr>)"

text \<open>Lines 90 to 122: the evaluator factories handed on.\<close>

definition evaluator_factories_of ::
  "('f, 'c) DistributedContrastive_args \<Rightarrow> ('f, 'c) evaluator_factory list" where
  "evaluator_factories_of a =
     (let cfg = DistributedContrastive_args.config a;
          sd = DistributedContrastive_args.seed a
      in case DistributedContrastive_args.evaluator_factories a of
           None \<Rightarrow>
             (let eval_policy_factory = apply_policy_and_sample_eval;
                  eval_observers =
                    [SuccessObserver,
                     DistanceObserver (obs_dim cfg) (start_index cfg) (end_index cfg)];
                  factories =
                    [default_evaluator_factory
                       (DistributedContrastive_args.environment_factory_fixed_goals a)
                       (DistributedContrastive_args.network_factory a)
                       eval_policy_factory
                       (DistributedContrastive_args.log_to_bigtable a)
                       eval_observers
                       (run_dir cfg sd)
                       (config.add_uid cfg)
                       (config.use_wandb cfg)
                       (config.wandb_project cfg)
                       (config.wandb_entity cfg)
                       (config.wandb_group cfg)
                       (config.wandb_mode cfg)]
              in if local cfg then [] else factories)
         | Some factories \<Rightarrow> factories)"

text \<open>
  \<^verbatim>\<open>DistributedContrastive.__init__\<close>: the two assertions, then the keyword arguments
  with which the constructor of the base class is called.
\<close>

definition DistributedContrastive_init ::
  "('f, 'c) DistributedContrastive_args \<Rightarrow> py_exception + ('f, 'c) DistributedLayout_args" where
  "DistributedContrastive_init a =
     (let cfg = DistributedContrastive_args.config a;
          sd = DistributedContrastive_args.seed a
      in
      if \<not> (max_episode_steps cfg > 0) then Inl AssertionError
      else if \<not> (obs_dim cfg > 0) then Inl AssertionError
      else
        (let contrastive_builder = ContrastiveBuilder cfg (logger_fn a);
             actor_observers =
               [SuccessObserver,
                DistanceObserver (obs_dim cfg) (start_index cfg) (end_index cfg)]
         in Inr \<lparr>seed = sd,
                 environment_factory = DistributedContrastive_args.environment_factory a,
                 environment_factory_fixed_goals =
                   DistributedContrastive_args.environment_factory_fixed_goals a,
                 network_factory = DistributedContrastive_args.network_factory a,
                 builder = contrastive_builder,
                 policy_network = apply_policy_and_sample,
                 evaluator_factories = evaluator_factories_of a,
                 num_actors = DistributedContrastive_args.num_actors a,
                 max_number_of_steps = DistributedContrastive_args.max_number_of_steps a,
                 prefetch_size = config.prefetch_size cfg,
                 log_to_bigtable = DistributedContrastive_args.log_to_bigtable a,
                 actor_logger_fn =
                   get_default_logger_fn
                     (DistributedContrastive_args.log_to_bigtable a)
                     (log_every a)
                     (run_dir cfg sd)
                     (config.add_uid cfg)
                     (config.use_wandb cfg)
                     (config.wandb_project cfg)
                     (config.wandb_entity cfg)
                     (config.wandb_group cfg)
                     (config.wandb_mode cfg),
                 observers = actor_observers,
                 checkpointing_config = CheckpointingConfig (run_dir cfg sd) (config.add_uid cfg),
                 config = cfg\<rparr>))"

section \<open>Notions of the specification\<close>

text \<open>
  The first present value among the keys \<^verbatim>\<open>steps\<close>, \<^verbatim>\<open>learner_steps\<close>,
  \<^verbatim>\<open>actor_steps\<close>, in this order. The entry of a key is what the association list
  holds for it (\<open>map_of\<close>); a value is present when the key has an entry and the entry
  is not \<^verbatim>\<open>None\<close>.
\<close>

fun present :: "'v option option \<Rightarrow> 'v option" where
  "present (Some (Some v)) = Some v"
| "present _ = None"

definition step_keys :: "string list" where
  "step_keys = [''steps'', ''learner_steps'', ''actor_steps'']"

definition first_present :: "'v metrics \<Rightarrow> 'v option" where
  "first_present data =
     (case List.map_filter (\<lambda>k. present (map_of data k)) step_keys of
        [] \<Rightarrow> None
      | v # _ \<Rightarrow> Some v)"


text \<open>The keys of the experiment-tracking metadata.\<close>

definition metadata_keys :: "string list" where
  "metadata_keys =
     [''algorithm'', ''environment'', ''seed'', ''max_steps'', ''num_actors'', ''batch_size'',
      ''learning_rate'', ''actor_learning_rate'', ''discount'', ''tau'', ''use_td'', ''use_cpc'',
      ''repr_dim'', ''hidden_layer_sizes'']"

text \<open>Shorthands for the three parts of \<^verbatim>\<open>make_wandb_logger\<close>.\<close>

abbreviation wandb_sink_of ::
  "'c wandb_env \<Rightarrow> 'c make_wandb_logger_args \<Rightarrow> (py_exception + wandb_logger) \<times> 'c event list" where
  "wandb_sink_of env a \<equiv>
     WandbLogger_init env (label a) (wandb_project a) (wandb_entity a) (wandb_config a)
       (wandb_group a) (wandb_name a) (wandb_tags a) (wandb_notes a) (wandb_mode a) (init_wandb a)"

abbreviation base_of :: "'c make_wandb_logger_args \<Rightarrow> sink list" where
  "base_of a \<equiv> base_loggers (label a) (print_fn a) (save_data a) (save_dir a) (add_uid a)"

abbreviation finish_of ::
  "'c make_wandb_logger_args \<Rightarrow> sink list \<Rightarrow> py_exception + logger" where
  "finish_of a ls \<equiv> dispatch_and_filter ls (serialize_fn a) (asynchronous a) (time_delta a)"

section \<open>Example inputs\<close>

definition example_env :: "nat wandb_env" where
  "example_env =
     \<lparr>WANDB_LOGGER_AVAILABLE = True, WANDB_AVAILABLE = True, wandb_run = None,
      wandb_init = (\<lambda>args. Inr (Some 1)), time_time = 0\<rparr>"

definition env_without_logger_module :: "nat wandb_env" where
  "env_without_logger_module = example_env\<lparr>WANDB_LOGGER_AVAILABLE := False\<rparr>"

definition env_without_sdk :: "nat wandb_env" where
  "env_without_sdk = example_env\<lparr>WANDB_AVAILABLE := False\<rparr>"


definition tracking_args :: "nat make_wandb_logger_args" where
  "tracking_args = (make_wandb_logger_defaults ''learner'')\<lparr>use_wandb := True, init_wandb := True\<rparr>"

definition terminal_only_args :: "nat make_wandb_logger_args" where
  "terminal_only_args = (make_wandb_logger_defaults ''actor'')\<lparr>save_data := False\<rparr>"

definition example_config :: "nat config" where
  "example_config =
     \<lparr>max_episode_steps = 50, obs_dim = 4, start_index = 0, end_index = 2, prefetch_size = 4,
      local = False, log_dir = ''logs/'', alg_name = ''contrastive_nce'', env_name = ''sawyer_push'',
      add_uid = True, max_number_of_steps = 1000000, batch_size = 256, learning_rate = 3,
      actor_learning_rate = 3, discount = 99, tau = 5, use_td = 0, use_cpc = 0, repr_dim = 64,
      hidden_layer_sizes = 256, use_wandb = True, wandb_project = ''contrastive-rl'',
      wandb_entity = None, wandb_group = None, wandb_name = None, wandb_tags = None,
      wandb_notes = None, wandb_mode = ''online''\<rparr>"

definition example_args :: "(nat, nat) DistributedContrastive_args" where
  "example_args =
     \<lparr>DistributedContrastive_args.environment_factory = 1,
      DistributedContrastive_args.environment_factory_fixed_goals = 2,
      DistributedContrastive_args.network_factory = 3,
      DistributedContrastive_args.config = example_config,
      DistributedContrastive_args.seed = 0,
      DistributedContrastive_args.num_actors = 4,
      DistributedContrastive_args.max_number_of_steps = None,
      DistributedContrastive_args.log_to_bigtable = False,
      DistributedContrastive_args.log_every = 10,
      DistributedContrastive_args.evaluator_factories = None\<rparr>"

text \<open>
  Values for the examples: integers, and the float that is not a number, on which
  \<^verbatim>\<open>int\<close> raises \<^verbatim>\<open>ValueError\<close>.
\<close>

datatype example_value = Number int | NotANumber

fun example_int :: "example_value \<Rightarrow> py_exception + int" where
  "example_int (Number i) = Inr i"
| "example_int NotANumber = Inl (ValueError ''cannot convert float NaN to integer'')"

definition example_logger :: wandb_logger where
  "example_logger = \<lparr>self_label = ''learner'', self_time = 0, self_run = Some 1\<rparr>"

definition example_metrics :: "example_value metrics" where
  "example_metrics =
     [(''loss'', Some (Number 3)), (''steps'', None), (''learner_steps'', Some (Number 120))]"

definition nan_metrics :: "example_value metrics" where
  "nan_metrics = [(''loss'', Some (Number 3)), (''steps'', Some NotANumber)]"

definition none_metrics :: "example_value metrics" where
  "none_metrics = [(''loss'', Some (Number 3)), (''steps'', None)]"


definition local_args :: "(nat, nat) DistributedContrastive_args" where
  "local_args = example_args\<lparr>DistributedContrastive_args.config := example_config\<lparr>local := True\<rparr>\<rparr>"

definition unset_args :: "(nat, nat) DistributedContrastive_args" where
  "unset_args =
     example_args\<lparr>DistributedContrastive_args.config := example_config\<lparr>max_episode_steps := 0\<rparr>\<rparr>"

definition untracked_args :: "(nat, nat) DistributedContrastive_args" where
  "untracked_args =
     example_args\<lparr>DistributedContrastive_args.config := example_config\<lparr>config.use_wandb := False\<rparr>\<rparr>"


definition supplied_args :: "(nat, nat) DistributedContrastive_args" where
  "supplied_args =
     example_args\<lparr>DistributedContrastive_args.evaluator_factories := Some [EvaluatorFactory 9]\<rparr>"

section \<open>Facts about the logger factories\<close>

lemma dispatch_and_filter_shape:
  "dispatch_and_filter ls ser as d =
     (if d < 0 then Inl (ValueError ''time_delta must be greater than 0'')
      else Inr (TimeFilter (if as then AsyncLogger (NoneFilter (Dispatcher ls ser))
                            else NoneFilter (Dispatcher ls ser)) d))"
  by (simp add: dispatch_and_filter_def TimeFilter_init_def Let_def)

lemma dispatch_and_filter_Inr:
  assumes "dispatch_and_filter ls ser as d = Inr lg"
  shows "lg = TimeFilter (if as then AsyncLogger (NoneFilter (Dispatcher ls ser))
                          else NoneFilter (Dispatcher ls ser)) d"
    and "sinks_of lg = ls" and "has_async lg = as" and "0 \<le> d"
  using assms by (auto simp: dispatch_and_filter_shape split: if_splits)


lemma base_loggers_eq:
  "base_loggers lbl pf sd dir uid =
     TerminalLogger lbl (case pf of None \<Rightarrow> logging_info | Some f \<Rightarrow> f)
       # (if sd then [CSVLogger lbl dir uid] else [])"
  by (simp add: base_loggers_def Let_def)

lemma base_loggers_no_wandb: "\<not> list_ex is_wandb_sink (base_loggers lbl pf sd dir uid)"
  by (simp add: base_loggers_eq)

text \<open>The five ways through \<^verbatim>\<open>make_wandb_logger\<close>.\<close>

lemma make_wandb_logger_not_requested:
  "\<not> use_wandb a \<Longrightarrow> make_wandb_logger env a = (finish_of a (base_of a), [])"
  by (simp add: make_wandb_logger_def Let_def)

lemma make_wandb_logger_unavailable:
  "use_wandb a \<Longrightarrow> \<not> WANDB_LOGGER_AVAILABLE env \<Longrightarrow>
   fst (make_wandb_logger env a) = finish_of a (base_of a)"
  by (simp add: make_wandb_logger_def Let_def)

lemma make_wandb_logger_constructed:
  "use_wandb a \<Longrightarrow> WANDB_LOGGER_AVAILABLE env \<Longrightarrow> fst (wandb_sink_of env a) = Inr w \<Longrightarrow>
   fst (make_wandb_logger env a) = finish_of a (base_of a @ [WandbLogger w])"
  by (cases "wandb_sink_of env a") (auto simp: make_wandb_logger_def Let_def)

lemma make_wandb_logger_caught:
  "use_wandb a \<Longrightarrow> WANDB_LOGGER_AVAILABLE env \<Longrightarrow> fst (wandb_sink_of env a) = Inl e \<Longrightarrow>
   isinstance_Exception e \<Longrightarrow>
   fst (make_wandb_logger env a) = finish_of a (base_of a)"
  by (cases "wandb_sink_of env a") (auto simp: make_wandb_logger_def Let_def)

lemma make_wandb_logger_propagated:
  "use_wandb a \<Longrightarrow> WANDB_LOGGER_AVAILABLE env \<Longrightarrow> fst (wandb_sink_of env a) = Inl e \<Longrightarrow>
   \<not> isinstance_Exception e \<Longrightarrow>
   fst (make_wandb_logger env a) = Inl e"
  by (cases "wandb_sink_of env a") (auto simp: make_wandb_logger_def Let_def)

lemma make_wandb_logger_returns:
  assumes "fst (make_wandb_logger env a) = Inr lg"
  shows "finish_of a (base_of a) = Inr lg \<or>
         (\<exists>w. use_wandb a \<and> WANDB_LOGGER_AVAILABLE env \<and> fst (wandb_sink_of env a) = Inr w \<and>
              finish_of a (base_of a @ [WandbLogger w]) = Inr lg)"
proof (cases "use_wandb a \<and> WANDB_LOGGER_AVAILABLE env")
  case False
  show ?thesis
  proof (cases "use_wandb a")
    case True
    with False have "\<not> WANDB_LOGGER_AVAILABLE env" by simp
    from make_wandb_logger_unavailable [OF True this] assms show ?thesis by simp
  next
    case nreq: False
    from make_wandb_logger_not_requested [OF nreq, of env] assms show ?thesis by simp
  qed
next
  case True
  show ?thesis
  proof (cases "fst (wandb_sink_of env a)")
    case (Inl e)
    then show ?thesis
      using assms True make_wandb_logger_caught [of a env e]
        make_wandb_logger_propagated [of a env e]
      by (cases "isinstance_Exception e") auto
  next
    case (Inr w)
    then show ?thesis using assms True make_wandb_logger_constructed [of a env w] by auto
  qed
qed

lemma tracking_run:
  "fst (make_wandb_logger example_env tracking_args) =
     Inr (TimeFilter (NoneFilter (Dispatcher
            [TerminalLogger ''learner'' logging_info, CSVLogger ''learner'' ''logs'' True,
             WandbLogger \<lparr>self_label = ''learner'', self_time = 0, self_run = Some 1\<rparr>]
            (Some to_numpy))) 1)"
  by (simp add: make_wandb_logger_def tracking_args_def make_wandb_logger_defaults_def
        example_env_def WandbLogger_init_def check_run_def
        base_loggers_def dispatch_and_filter_shape Let_def)

lemma terminal_only_run:
  "make_wandb_logger example_env terminal_only_args =
     (Inr (TimeFilter (NoneFilter (Dispatcher [TerminalLogger ''actor'' logging_info]
             (Some to_numpy))) 1), [])"
  by (simp add: make_wandb_logger_def terminal_only_args_def make_wandb_logger_defaults_def
        base_loggers_def dispatch_and_filter_shape Let_def)

lemma tracking_sink:
  "wandb_sink_of example_env tracking_args =
     (Inr \<lparr>self_label = ''learner'', self_time = 0, self_run = Some 1\<rparr>,
      [WandbInit \<lparr>init_project = ''contrastive-rl'', init_entity = None, init_config = None,
                  init_group = None, init_name = None, init_tags = None, init_notes = None,
                  init_mode = ''online'', init_reinit = False\<rparr>])"
  by (simp add: tracking_args_def make_wandb_logger_defaults_def
        example_env_def WandbLogger_init_def check_run_def Let_def)

lemma constructor_raises:
  "fst (WandbLogger_init env L p en c g n t no m iw) = Inl e \<Longrightarrow>
   (\<exists>msg. e = ImportError msg) \<or> (\<exists>msg. e = RuntimeError msg)
   \<or> (\<exists>args. WANDB_AVAILABLE env \<and> iw \<and> wandb_run env = None \<and> wandb_init env args = Inl e)"
  by (auto simp: WandbLogger_init_def check_run_def Let_def split: if_splits sum.splits)

section \<open>Facts about \<^verbatim>\<open>WandbLogger\<close>\<close>

lemma dict_get_present: "dict_get data k = present (map_of data k)"
  by (cases "map_of data k" rule: present.cases) (simp_all add: dict_get_def)

lemma extract_step_first_present: "extract_step data = first_present data"
  by (simp add: extract_step_def first_present_def step_keys_def List.map_filter_simps Let_def
        dict_get_present split: option.splits)

lemma prefixed_data_keys:
  "map fst (prefixed_data L data) = map (\<lambda>k. L @ ''/'' @ k) (map fst data)"
  by (induction data) (auto simp: prefixed_data_def)

lemma prefixed_data_values: "map snd (prefixed_data L data) = map snd data"
  by (induction data) (auto simp: prefixed_data_def)

lemma map_of_prefixed_data: "map_of (prefixed_data L data) (L @ ''/'' @ k) = map_of data k"
  by (induction data) (auto simp: prefixed_data_def)

lemma WandbLogger_init_run:
  "fst (WandbLogger_init env L p e c g n t no m iw) = Inr self \<Longrightarrow>
   self_run self \<noteq> None \<and> self_label self = L"
  by (auto simp: WandbLogger_init_def check_run_def Let_def split: if_splits sum.splits)

lemma first_present_absent:
  "set step_keys \<inter> fst ` set data = {} \<Longrightarrow> first_present data = None"
proof -
  assume d: "set step_keys \<inter> fst ` set data = {}"
  have "\<And>k. k \<in> set step_keys \<Longrightarrow> map_of data k = None"
    using d by (auto simp: map_of_eq_None_iff)
  then show ?thesis
    by (simp add: first_present_def step_keys_def List.map_filter_simps)
qed

lemma example_logger_built:
  "fst (WandbLogger_init example_env ''learner'' ''contrastive-rl'' None None None None None None
          ''online'' True) = Inr example_logger"
  by (simp add: example_env_def example_logger_def WandbLogger_init_def check_run_def Let_def)

lemma example_first_present: "first_present example_metrics = Some (Number 120)"
  by (simp add: first_present_def example_metrics_def step_keys_def List.map_filter_simps)

section \<open>Facts about the agent assembler\<close>

lemma init_Inr:
  assumes "DistributedContrastive_init a = Inr k"
  shows "0 < max_episode_steps (DistributedContrastive_args.config a)"
    and "0 < obs_dim (DistributedContrastive_args.config a)"
    and "builder k = ContrastiveBuilder (DistributedContrastive_args.config a) (logger_fn a)"
    and "DistributedLayout_args.evaluator_factories k = evaluator_factories_of a"
    and "DistributedLayout_args.seed k = DistributedContrastive_args.seed a"
    and "DistributedLayout_args.environment_factory k = DistributedContrastive_args.environment_factory a"
    and "DistributedLayout_args.environment_factory_fixed_goals k =
           DistributedContrastive_args.environment_factory_fixed_goals a"
    and "DistributedLayout_args.network_factory k = DistributedContrastive_args.network_factory a"
    and "DistributedLayout_args.num_actors k = DistributedContrastive_args.num_actors a"
    and "DistributedLayout_args.max_number_of_steps k = DistributedContrastive_args.max_number_of_steps a"
    and "DistributedLayout_args.log_to_bigtable k = DistributedContrastive_args.log_to_bigtable a"
    and "DistributedLayout_args.config k = DistributedContrastive_args.config a"
  using assms
  by (auto simp: DistributedContrastive_init_def Let_def split: if_splits)

lemma str_int_0: "str_int 0 = ''0''"
  by code_simp

lemma example_init:
  "DistributedContrastive_init example_args =
     Inr \<lparr>seed = 0, environment_factory = 1, environment_factory_fixed_goals = 2,
          network_factory = 3,
          builder = ContrastiveBuilder example_config (logger_fn example_args),
          policy_network = apply_policy_and_sample,
          evaluator_factories =
            [default_evaluator_factory 2 3 apply_policy_and_sample_eval False
               [SuccessObserver, DistanceObserver 4 0 2] ''logs/contrastive_nce_sawyer_push_0''
               True True ''contrastive-rl'' None None ''online''],
          num_actors = 4, max_number_of_steps = None, prefetch_size = 4, log_to_bigtable = False,
          actor_logger_fn =
            get_default_logger_fn False 10 ''logs/contrastive_nce_sawyer_push_0'' True True
              ''contrastive-rl'' None None ''online'',
          observers = [SuccessObserver, DistanceObserver 4 0 2],
          checkpointing_config = CheckpointingConfig ''logs/contrastive_nce_sawyer_push_0'' True,
          config = example_config\<rparr>"
  by (simp add: DistributedContrastive_init_def evaluator_factories_of_def Let_def
        example_args_def example_config_def run_dir_def str_int_0)

lemma untracked_init:
  "\<exists>k. DistributedContrastive_init untracked_args = Inr k"
  by (simp add: DistributedContrastive_init_def Let_def untracked_args_def
        example_args_def example_config_def)

lemma supplied_init: "\<exists>k. DistributedContrastive_init supplied_args = Inr k"
  by (simp add: DistributedContrastive_init_def Let_def supplied_args_def
        example_args_def example_config_def)

section \<open>The claims about the logger factories\<close>

text \<open>
  Claim C1, as the code has it. Whenever \<^verbatim>\<open>make_wandb_logger\<close> returns a logger, the
  sink list of its dispatcher starts with the terminal logger; the CSV logger follows
  exactly when \<^verbatim>\<open>save_data\<close> is true; after them comes nothing or the one tracking
  sink.
\<close>

theorem C1_sinks:
  assumes "fst (make_wandb_logger env a) = Inr lg"
  shows "\<exists>ws. sinks_of lg =
               TerminalLogger (label a) (case print_fn a of None \<Rightarrow> logging_info | Some f \<Rightarrow> f)
                 # (if save_data a then [CSVLogger (label a) (save_dir a) (add_uid a)] else []) @ ws
             \<and> (ws = [] \<or> (\<exists>w. ws = [WandbLogger w]))"
proof -
  from make_wandb_logger_returns [OF assms]
  consider "finish_of a (base_of a) = Inr lg"
    | w where "finish_of a (base_of a @ [WandbLogger w]) = Inr lg"
    by blast
  then show ?thesis
  proof cases
    case 1
    from dispatch_and_filter_Inr(2) [OF 1] have "sinks_of lg = base_of a @ []" by simp
    then show ?thesis unfolding base_loggers_eq by (intro exI [of _ "[]"]) simp
  next
    case 2
    from dispatch_and_filter_Inr(2) [OF 2] have "sinks_of lg = base_of a @ [WandbLogger w]" .
    then show ?thesis unfolding base_loggers_eq by (intro exI [of _ "[WandbLogger w]"]) simp
  qed
qed

text \<open>The statement at the default arguments with tracking switched on.\<close>

theorem C1_sinks_witness:
  "fst (make_wandb_logger example_env tracking_args) =
     Inr (TimeFilter (NoneFilter (Dispatcher
            [TerminalLogger ''learner'' logging_info, CSVLogger ''learner'' ''logs'' True,
             WandbLogger \<lparr>self_label = ''learner'', self_time = 0, self_run = Some 1\<rparr>]
            (Some to_numpy))) 1)
   \<and> (\<exists>ws. [TerminalLogger ''learner'' logging_info, CSVLogger ''learner'' ''logs'' True,
             WandbLogger \<lparr>self_label = ''learner'', self_time = 0, self_run = Some 1\<rparr>] =
            TerminalLogger ''learner'' logging_info # [CSVLogger ''learner'' ''logs'' True] @ ws
          \<and> (ws = [] \<or> (\<exists>w. ws = [WandbLogger w])))"
  using C1_sinks [OF tracking_run] tracking_run
  by (simp add: tracking_args_def make_wandb_logger_defaults_def)

text \<open>
  With \<^verbatim>\<open>save_data=False\<close> the sink list is the terminal logger alone: the CSV
  logger is not always there.
\<close>

theorem C1_counterexample:
  "fst (make_wandb_logger example_env terminal_only_args) =
     Inr (TimeFilter (NoneFilter (Dispatcher [TerminalLogger ''actor'' logging_info] (Some to_numpy))) 1)
   \<and> \<not> list_ex is_csv_sink [TerminalLogger ''actor'' logging_info]"
  by (simp add: terminal_only_run)



text \<open>
  Claim C7, as the code has it. If \<^verbatim>\<open>use_wandb\<close> is false, \<^verbatim>\<open>make_wandb_logger\<close>
  prints nothing and never calls the SDK, and the logger it returns has no tracking sink.
  If \<^verbatim>\<open>use_wandb\<close> is true and a logger is returned, the tracking sink is among its
  sinks exactly when the module of the sink could be imported and the constructor of the
  sink returned; it is then the last sink.
\<close>

theorem C7_tracking_sink:
  "(\<not> use_wandb a \<longrightarrow>
      snd (make_wandb_logger env a) = []
      \<and> (\<forall>lg. fst (make_wandb_logger env a) = Inr lg \<longrightarrow>
             \<not> list_ex is_wandb_sink (sinks_of lg)))
   \<and> (use_wandb a \<longrightarrow>
        (\<forall>lg. fst (make_wandb_logger env a) = Inr lg \<longrightarrow>
           (list_ex is_wandb_sink (sinks_of lg) \<longleftrightarrow>
              WANDB_LOGGER_AVAILABLE env \<and> (\<exists>w. fst (wandb_sink_of env a) = Inr w))
           \<and> (\<forall>w. fst (wandb_sink_of env a) = Inr w \<and> WANDB_LOGGER_AVAILABLE env \<longrightarrow>
                  sinks_of lg = base_of a @ [WandbLogger w])))"
proof (intro conjI impI allI)
  assume "\<not> use_wandb a"
  from make_wandb_logger_not_requested [OF this, of env]
  show "snd (make_wandb_logger env a) = []" by simp
next
  fix lg
  assume n: "\<not> use_wandb a" and r: "fst (make_wandb_logger env a) = Inr lg"
  from make_wandb_logger_not_requested [OF n, of env] r
  have "finish_of a (base_of a) = Inr lg" by simp
  from dispatch_and_filter_Inr(2) [OF this]
  show "\<not> list_ex is_wandb_sink (sinks_of lg)" by (simp add: base_loggers_no_wandb)
next
  fix lg
  assume u: "use_wandb a" and r: "fst (make_wandb_logger env a) = Inr lg"
  show "list_ex is_wandb_sink (sinks_of lg) \<longleftrightarrow>
          WANDB_LOGGER_AVAILABLE env \<and> (\<exists>w. fst (wandb_sink_of env a) = Inr w)"
  proof (cases "WANDB_LOGGER_AVAILABLE env")
    case False
    from make_wandb_logger_unavailable [OF u False] r
    have "finish_of a (base_of a) = Inr lg" by simp
    from dispatch_and_filter_Inr(2) [OF this] False show ?thesis
      by (simp add: base_loggers_no_wandb)
  next
    case True
    show ?thesis
    proof (cases "fst (wandb_sink_of env a)")
      case (Inr w)
      from make_wandb_logger_constructed [OF u True Inr] r
      have "finish_of a (base_of a @ [WandbLogger w]) = Inr lg" by simp
      from dispatch_and_filter_Inr(2) [OF this] True Inr show ?thesis by simp
    next
      case (Inl e)
      have "isinstance_Exception e"
        using make_wandb_logger_propagated [OF u True Inl] r by auto
      from make_wandb_logger_caught [OF u True Inl this] r
      have "finish_of a (base_of a) = Inr lg" by simp
      from dispatch_and_filter_Inr(2) [OF this] Inl show ?thesis
        by (simp add: base_loggers_no_wandb)
    qed
  qed
next
  fix lg w
  assume u: "use_wandb a" and r: "fst (make_wandb_logger env a) = Inr lg"
    and w: "fst (wandb_sink_of env a) = Inr w \<and> WANDB_LOGGER_AVAILABLE env"
  from make_wandb_logger_constructed [OF u] w r
  have "finish_of a (base_of a @ [WandbLogger w]) = Inr lg" by simp
  from dispatch_and_filter_Inr(2) [OF this]
  show "sinks_of lg = base_of a @ [WandbLogger w]" .
qed

text \<open>The statement at a call without tracking and at a call where tracking succeeds.\<close>

theorem C7_tracking_sink_witness:
  "\<not> use_wandb terminal_only_args
   \<and> make_wandb_logger example_env terminal_only_args =
       (Inr (TimeFilter (NoneFilter (Dispatcher [TerminalLogger ''actor'' logging_info]
               (Some to_numpy))) 1), [])
   \<and> \<not> list_ex is_wandb_sink (sinks_of (TimeFilter (NoneFilter (Dispatcher
            [TerminalLogger ''actor'' logging_info] (Some to_numpy))) 1))
   \<and> use_wandb tracking_args
   \<and> WANDB_LOGGER_AVAILABLE example_env
   \<and> fst (wandb_sink_of example_env tracking_args) =
       Inr \<lparr>self_label = ''learner'', self_time = 0, self_run = Some 1\<rparr>
   \<and> list_ex is_wandb_sink (sinks_of (TimeFilter (NoneFilter (Dispatcher
            [TerminalLogger ''learner'' logging_info, CSVLogger ''learner'' ''logs'' True,
             WandbLogger \<lparr>self_label = ''learner'', self_time = 0, self_run = Some 1\<rparr>]
            (Some to_numpy))) 1))"
proof -
  have n: "\<not> use_wandb terminal_only_args"
    by (simp add: terminal_only_args_def make_wandb_logger_defaults_def)
  have u: "use_wandb tracking_args"
    by (simp add: tracking_args_def make_wandb_logger_defaults_def)
  have av: "WANDB_LOGGER_AVAILABLE example_env" by (simp add: example_env_def)
  have w: "fst (wandb_sink_of example_env tracking_args) =
       Inr \<lparr>self_label = ''learner'', self_time = 0, self_run = Some 1\<rparr>"
    by (simp add: tracking_sink)
  have t: "fst (make_wandb_logger example_env terminal_only_args) =
       Inr (TimeFilter (NoneFilter (Dispatcher [TerminalLogger ''actor'' logging_info]
               (Some to_numpy))) 1)"
    by (simp add: terminal_only_run)
  from C7_tracking_sink [of terminal_only_args example_env] n t
  have 1: "\<not> list_ex is_wandb_sink (sinks_of (TimeFilter (NoneFilter (Dispatcher
            [TerminalLogger ''actor'' logging_info] (Some to_numpy))) 1))"
    by blast
  from C7_tracking_sink [of tracking_args example_env] u tracking_run av w
  have 2: "list_ex is_wandb_sink (sinks_of (TimeFilter (NoneFilter (Dispatcher
            [TerminalLogger ''learner'' logging_info, CSVLogger ''learner'' ''logs'' True,
             WandbLogger \<lparr>self_label = ''learner'', self_time = 0, self_run = Some 1\<rparr>]
            (Some to_numpy))) 1))"
    by blast
  from n u av w terminal_only_run 1 2 show ?thesis by blast
qed

text \<open>
  Tracking is requested, and the module of the sink could not be imported, or the SDK is
  not installed and the constructor of the sink raises: the logger is returned without a
  tracking sink.
\<close>

theorem C7_counterexample:
  "use_wandb tracking_args
   \<and> fst (make_wandb_logger env_without_logger_module tracking_args) =
       Inr (TimeFilter (NoneFilter (Dispatcher
              [TerminalLogger ''learner'' logging_info, CSVLogger ''learner'' ''logs'' True]
              (Some to_numpy))) 1)
   \<and> fst (make_wandb_logger env_without_sdk tracking_args) =
       Inr (TimeFilter (NoneFilter (Dispatcher
              [TerminalLogger ''learner'' logging_info, CSVLogger ''learner'' ''logs'' True]
              (Some to_numpy))) 1)
   \<and> \<not> list_ex is_wandb_sink
         [TerminalLogger ''learner'' logging_info, CSVLogger ''learner'' ''logs'' True]"
  by (simp add: make_wandb_logger_def tracking_args_def make_wandb_logger_defaults_def
        env_without_logger_module_def env_without_sdk_def example_env_def WandbLogger_init_def
        base_loggers_def dispatch_and_filter_shape Let_def)




section \<open>The claim about \<^verbatim>\<open>WandbLogger.write\<close>\<close>

text \<open>
  Claim C8, as the code has it. Take a logger that the constructor built with label
  \<open>L\<close>. The step of a dictionary is the first present value among \<^verbatim>\<open>steps\<close>,
  \<^verbatim>\<open>learner_steps\<close>, \<^verbatim>\<open>actor_steps\<close>, where a key whose value is \<^verbatim>\<open>None\<close> counts
  as absent. If there is no such value, and so if none of the three keys is in the
  dictionary, \<^verbatim>\<open>write\<close> makes one tracking call without a step; if there is one and
  \<^verbatim>\<open>int\<close> converts it, \<^verbatim>\<open>write\<close> makes one tracking call with that integer as the
  step; if \<^verbatim>\<open>int\<close> raises on it, \<^verbatim>\<open>write\<close> raises and makes no tracking call. The
  dictionary of the tracking call has the keys of the input, each prefixed with \<open>L/\<close>,
  in the order of the input and with the values of the input.
\<close>

theorem C8_write:
  assumes "fst (WandbLogger_init env L p en c g n t no m iw) = Inr self"
  shows "(first_present data = None \<longrightarrow>
            (\<exists>logged. WandbLogger_write py_int self data = Inr [WandbLog logged None]
               \<and> map fst logged = map (\<lambda>k. L @ ''/'' @ k) (map fst data)
               \<and> map snd logged = map snd data))
         \<and> (\<forall>v i. first_present data = Some v \<and> py_int v = Inr i \<longrightarrow>
            (\<exists>logged. WandbLogger_write py_int self data = Inr [WandbLog logged (Some i)]
               \<and> map fst logged = map (\<lambda>k. L @ ''/'' @ k) (map fst data)
               \<and> map snd logged = map snd data))
         \<and> (\<forall>v ex. first_present data = Some v \<and> py_int v = Inl ex \<longrightarrow>
            WandbLogger_write py_int self data = Inl ex)
         \<and> (set step_keys \<inter> fst ` set data = {} \<longrightarrow> first_present data = None)"
proof -
  from WandbLogger_init_run [OF assms]
  have run: "self_run self \<noteq> None" and lbl: "self_label self = L" by simp_all
  have w: "WandbLogger_write py_int self data =
           (case first_present data of
              None \<Rightarrow> Inr [WandbLog (prefixed_data L data) None]
            | Some v \<Rightarrow>
                (case py_int v of
                   Inl ex \<Rightarrow> Inl ex
                 | Inr i \<Rightarrow> Inr [WandbLog (prefixed_data L data) (Some i)]))"
    using run lbl
    by (simp add: WandbLogger_write_def Let_def extract_step_first_present
             split: option.splits sum.splits)
  note k = prefixed_data_keys [of L data] and v = prefixed_data_values [of L data]
  have 1: "first_present data = None \<longrightarrow>
            (\<exists>logged. WandbLogger_write py_int self data = Inr [WandbLog logged None]
               \<and> map fst logged = map (\<lambda>k. L @ ''/'' @ k) (map fst data)
               \<and> map snd logged = map snd data)"
    using w k v by simp
  have 2: "\<forall>v i. first_present data = Some v \<and> py_int v = Inr i \<longrightarrow>
            (\<exists>logged. WandbLogger_write py_int self data = Inr [WandbLog logged (Some i)]
               \<and> map fst logged = map (\<lambda>k. L @ ''/'' @ k) (map fst data)
               \<and> map snd logged = map snd data)"
    using w k v by simp
  have 3: "\<forall>v ex. first_present data = Some v \<and> py_int v = Inl ex \<longrightarrow>
            WandbLogger_write py_int self data = Inl ex"
    using w by simp
  from 1 2 3 first_present_absent [of data] show ?thesis by blast
qed

text \<open>The statement at a dictionary whose \<^verbatim>\<open>steps\<close> is \<^verbatim>\<open>None\<close>.\<close>

theorem C8_write_witness:
  "fst (WandbLogger_init example_env ''learner'' ''contrastive-rl'' None None None None None None
          ''online'' True) = Inr example_logger
   \<and> first_present example_metrics = Some (Number 120)
   \<and> example_int (Number 120) = Inr 120
   \<and> WandbLogger_write example_int example_logger example_metrics =
       Inr [WandbLog [(''learner/loss'', Some (Number 3)), (''learner/steps'', None),
                      (''learner/learner_steps'', Some (Number 120))] (Some 120)]"
proof -
  have i: "example_int (Number 120) = Inr 120" by simp
  from C8_write [OF example_logger_built, of example_metrics example_int]
    example_first_present i
  obtain logged where
    w: "WandbLogger_write example_int example_logger example_metrics =
          Inr [WandbLog logged (Some 120)]"
    and k: "map fst logged = map (\<lambda>k. ''learner'' @ ''/'' @ k) (map fst example_metrics)"
    and v: "map snd logged = map snd example_metrics"
    by blast
  have "logged = zip (map fst logged) (map snd logged)" by (simp add: zip_map_fst_snd)
  then have "logged = [(''learner/loss'', Some (Number 3)), (''learner/steps'', None),
                      (''learner/learner_steps'', Some (Number 120))]"
    unfolding k v by (simp add: example_metrics_def)
  with w example_logger_built example_first_present i show ?thesis by blast
qed

text \<open>
  Two dictionaries on which the claim does not hold as it stands. On the first,
  \<^verbatim>\<open>int\<close> raises on the value of \<^verbatim>\<open>steps\<close>: \<^verbatim>\<open>write\<close> raises and no key is
  logged. On the second the key \<^verbatim>\<open>steps\<close> is present, its value is \<^verbatim>\<open>None\<close>,
  and no step is passed.
\<close>

theorem C8_counterexample:
  "fst (WandbLogger_init example_env ''learner'' ''contrastive-rl'' None None None None None None
          ''online'' True) = Inr example_logger
   \<and> WandbLogger_write example_int example_logger nan_metrics =
       Inl (ValueError ''cannot convert float NaN to integer'')
   \<and> map_of none_metrics ''steps'' = Some None
   \<and> WandbLogger_write example_int example_logger none_metrics =
       Inr [WandbLog [(''learner/loss'', Some (Number 3)), (''learner/steps'', None)] None]"
  by (simp add: example_logger_built)
     (simp add: WandbLogger_write_def extract_step_def dict_get_def prefixed_data_def Let_def
        example_logger_def nan_metrics_def none_metrics_def)

section \<open>The claims about the agent assembler\<close>

text \<open>
  Claim C10. \<^verbatim>\<open>DistributedContrastive.__init__\<close> fails with an assertion error exactly
  when \<^verbatim>\<open>config.max_episode_steps > 0\<close> or \<^verbatim>\<open>config.obs_dim > 0\<close> does not hold; when
  both hold it reaches the constructor of the base class, and it fails in no other way.
\<close>
theorem C10_assertions:
  "(DistributedContrastive_init a = Inl AssertionError \<longleftrightarrow>
      \<not> (0 < max_episode_steps (DistributedContrastive_args.config a)
         \<and> 0 < obs_dim (DistributedContrastive_args.config a)))
   \<and> ((\<exists>k. DistributedContrastive_init a = Inr k) \<longleftrightarrow>
        0 < max_episode_steps (DistributedContrastive_args.config a)
        \<and> 0 < obs_dim (DistributedContrastive_args.config a))
   \<and> (\<forall>e. DistributedContrastive_init a = Inl e \<longrightarrow> e = AssertionError)"
  by (auto simp: DistributedContrastive_init_def Let_def split: if_splits)

text \<open>The statement at a configuration whose episode length was never set, and at a good one.\<close>
theorem C10_assertions_witness:
  "DistributedContrastive_init unset_args = Inl AssertionError
   \<and> \<not> 0 < max_episode_steps (DistributedContrastive_args.config unset_args)
   \<and> 0 < max_episode_steps (DistributedContrastive_args.config example_args)
   \<and> 0 < obs_dim (DistributedContrastive_args.config example_args)
   \<and> (\<exists>k. DistributedContrastive_init example_args = Inr k)"
proof -
  have u: "\<not> 0 < max_episode_steps (DistributedContrastive_args.config unset_args)"
    by (simp add: unset_args_def example_args_def example_config_def)
  have e: "0 < max_episode_steps (DistributedContrastive_args.config example_args)"
    "0 < obs_dim (DistributedContrastive_args.config example_args)"
    by (simp_all add: example_args_def example_config_def)
  from C10_assertions [of unset_args] u
  have 1: "DistributedContrastive_init unset_args = Inl AssertionError" by blast
  from C10_assertions [of example_args] e
  have 2: "\<exists>k. DistributedContrastive_init example_args = Inr k" by blast
  from 1 2 u e show ?thesis by blast
qed

text \<open>
  Claim C6. The \<^verbatim>\<open>wandb_config\<close> bound in the learner's logger factory is the metadata
  dictionary if \<^verbatim>\<open>config.use_wandb\<close> is true, and \<^verbatim>\<open>None\<close> otherwise. The dictionary
  has exactly the fourteen keys of the claim; \<^verbatim>\<open>seed\<close> and \<^verbatim>\<open>num_actors\<close> are the
  arguments of the constructor, the other values are fields of the configuration.
\<close>
theorem C6_wandb_config:
  assumes "DistributedContrastive_init a = Inr k"
  shows "if config.use_wandb (DistributedContrastive_args.config a) then
           \<exists>d. wandb_config (logger_fn_of (builder k)) = Some d
             \<and> map fst d = metadata_keys
             \<and> map snd d =
                 [PyStr (config.alg_name (DistributedContrastive_args.config a)),
                  PyStr (config.env_name (DistributedContrastive_args.config a)),
                  PyInt (DistributedContrastive_args.seed a),
                  PyObj (config.max_number_of_steps (DistributedContrastive_args.config a)),
                  PyInt (DistributedContrastive_args.num_actors a),
                  PyObj (config.batch_size (DistributedContrastive_args.config a)),
                  PyObj (config.learning_rate (DistributedContrastive_args.config a)),
                  PyObj (config.actor_learning_rate (DistributedContrastive_args.config a)),
                  PyObj (config.discount (DistributedContrastive_args.config a)),
                  PyObj (config.tau (DistributedContrastive_args.config a)),
                  PyObj (config.use_td (DistributedContrastive_args.config a)),
                  PyObj (config.use_cpc (DistributedContrastive_args.config a)),
                  PyObj (config.repr_dim (DistributedContrastive_args.config a)),
                  PyObj (config.hidden_layer_sizes (DistributedContrastive_args.config a))]
         else wandb_config (logger_fn_of (builder k)) = None"
proof -
  have "wandb_config (logger_fn_of (builder k)) =
          wandb_config_dict (DistributedContrastive_args.config a)
            (DistributedContrastive_args.seed a) (DistributedContrastive_args.num_actors a)"
    unfolding init_Inr(3) [OF assms] by (simp add: logger_fn_def Let_def)
  then show ?thesis
    by (simp add: wandb_config_dict_def metadata_keys_def)
qed

text \<open>The statement with tracking switched on and with tracking switched off.\<close>
theorem C6_wandb_config_witness:
  "(\<exists>k. DistributedContrastive_init example_args = Inr k
       \<and> config.use_wandb (DistributedContrastive_args.config example_args)
       \<and> wandb_config (logger_fn_of (builder k)) =
           Some [(''algorithm'', PyStr ''contrastive_nce''), (''environment'', PyStr ''sawyer_push''),
                 (''seed'', PyInt 0), (''max_steps'', PyObj 1000000), (''num_actors'', PyInt 4),
                 (''batch_size'', PyObj 256), (''learning_rate'', PyObj 3),
                 (''actor_learning_rate'', PyObj 3), (''discount'', PyObj 99), (''tau'', PyObj 5),
                 (''use_td'', PyObj 0), (''use_cpc'', PyObj 0), (''repr_dim'', PyObj 64),
                 (''hidden_layer_sizes'', PyObj 256)])
   \<and> (\<exists>k. DistributedContrastive_init untracked_args = Inr k
       \<and> \<not> config.use_wandb (DistributedContrastive_args.config untracked_args)
       \<and> wandb_config (logger_fn_of (builder k)) = None)"
proof -
  obtain k where k: "DistributedContrastive_init example_args = Inr k"
    using example_init by blast
  have u: "config.use_wandb (DistributedContrastive_args.config example_args)"
    by (simp add: example_args_def example_config_def)
  from C6_wandb_config [OF k] u
  obtain d where d: "wandb_config (logger_fn_of (builder k)) = Some d"
    and dk: "map fst d = metadata_keys"
    and dv: "map snd d =
       [PyStr (config.alg_name (DistributedContrastive_args.config example_args)),
        PyStr (config.env_name (DistributedContrastive_args.config example_args)),
        PyInt (DistributedContrastive_args.seed example_args),
        PyObj (config.max_number_of_steps (DistributedContrastive_args.config example_args)),
        PyInt (DistributedContrastive_args.num_actors example_args),
        PyObj (config.batch_size (DistributedContrastive_args.config example_args)),
        PyObj (config.learning_rate (DistributedContrastive_args.config example_args)),
        PyObj (config.actor_learning_rate (DistributedContrastive_args.config example_args)),
        PyObj (config.discount (DistributedContrastive_args.config example_args)),
        PyObj (config.tau (DistributedContrastive_args.config example_args)),
        PyObj (config.use_td (DistributedContrastive_args.config example_args)),
        PyObj (config.use_cpc (DistributedContrastive_args.config example_args)),
        PyObj (config.repr_dim (DistributedContrastive_args.config example_args)),
        PyObj (config.hidden_layer_sizes (DistributedContrastive_args.config example_args))]"
    by auto
  have "d = zip (map fst d) (map snd d)" by (simp add: zip_map_fst_snd)
  then have "d = [(''algorithm'', PyStr ''contrastive_nce''), (''environment'', PyStr ''sawyer_push''),
                 (''seed'', PyInt 0), (''max_steps'', PyObj 1000000), (''num_actors'', PyInt 4),
                 (''batch_size'', PyObj 256), (''learning_rate'', PyObj 3),
                 (''actor_learning_rate'', PyObj 3), (''discount'', PyObj 99), (''tau'', PyObj 5),
                 (''use_td'', PyObj 0), (''use_cpc'', PyObj 0), (''repr_dim'', PyObj 64),
                 (''hidden_layer_sizes'', PyObj 256)]"
    unfolding dk dv by (simp add: metadata_keys_def example_args_def example_config_def)
  with k u d have 1: "\<exists>k. DistributedContrastive_init example_args = Inr k
       \<and> config.use_wandb (DistributedContrastive_args.config example_args)
       \<and> wandb_config (logger_fn_of (builder k)) =
           Some [(''algorithm'', PyStr ''contrastive_nce''), (''environment'', PyStr ''sawyer_push''),
                 (''seed'', PyInt 0), (''max_steps'', PyObj 1000000), (''num_actors'', PyInt 4),
                 (''batch_size'', PyObj 256), (''learning_rate'', PyObj 3),
                 (''actor_learning_rate'', PyObj 3), (''discount'', PyObj 99), (''tau'', PyObj 5),
                 (''use_td'', PyObj 0), (''use_cpc'', PyObj 0), (''repr_dim'', PyObj 64),
                 (''hidden_layer_sizes'', PyObj 256)]"
    by blast
  obtain k' where k': "DistributedContrastive_init untracked_args = Inr k'"
    using untracked_init by blast
  have n: "\<not> config.use_wandb (DistributedContrastive_args.config untracked_args)"
    by (simp add: untracked_args_def example_args_def example_config_def)
  from C6_wandb_config [OF k'] n
  have "wandb_config (logger_fn_of (builder k')) = None" by simp
  with k' n have 2: "\<exists>k. DistributedContrastive_init untracked_args = Inr k
       \<and> \<not> config.use_wandb (DistributedContrastive_args.config untracked_args)
       \<and> wandb_config (logger_fn_of (builder k)) = None"
    by blast
  from 1 2 show ?thesis by blast
qed

text \<open>
  Claim C5, as the code has it. When the two assertions hold, the assembler hands
  \<^verbatim>\<open>seed\<close>, the two environment factories, the network factory, \<^verbatim>\<open>num_actors\<close>,
  \<^verbatim>\<open>max_number_of_steps\<close>, \<^verbatim>\<open>log_to_bigtable\<close> and \<^verbatim>\<open>config\<close> to the constructor of
  the base class unchanged. Evaluator factories that the caller supplies are handed on
  unchanged; when the caller supplies none, the assembler puts the default evaluator
  factory in their place, or no factory at all if \<^verbatim>\<open>config.local\<close> is true.
\<close>
theorem C5_forwarding:
  assumes "DistributedContrastive_init a = Inr k"
  shows "DistributedLayout_args.seed k = DistributedContrastive_args.seed a
    \<and> DistributedLayout_args.environment_factory k = DistributedContrastive_args.environment_factory a
    \<and> DistributedLayout_args.environment_factory_fixed_goals k =
        DistributedContrastive_args.environment_factory_fixed_goals a
    \<and> DistributedLayout_args.network_factory k = DistributedContrastive_args.network_factory a
    \<and> DistributedLayout_args.num_actors k = DistributedContrastive_args.num_actors a
    \<and> DistributedLayout_args.max_number_of_steps k = DistributedContrastive_args.max_number_of_steps a
    \<and> DistributedLayout_args.log_to_bigtable k = DistributedContrastive_args.log_to_bigtable a
    \<and> DistributedLayout_args.config k = DistributedContrastive_args.config a
    \<and> DistributedLayout_args.evaluator_factories k =
        (case DistributedContrastive_args.evaluator_factories a of
           Some fs \<Rightarrow> fs
         | None \<Rightarrow>
             if local (DistributedContrastive_args.config a) then []
             else [default_evaluator_factory
                     (DistributedContrastive_args.environment_factory_fixed_goals a)
                     (DistributedContrastive_args.network_factory a)
                     apply_policy_and_sample_eval
                     (DistributedContrastive_args.log_to_bigtable a)
                     [SuccessObserver,
                      DistanceObserver (obs_dim (DistributedContrastive_args.config a))
                        (start_index (DistributedContrastive_args.config a))
                        (end_index (DistributedContrastive_args.config a))]
                     (run_dir (DistributedContrastive_args.config a) (DistributedContrastive_args.seed a))
                     (config.add_uid (DistributedContrastive_args.config a))
                     (config.use_wandb (DistributedContrastive_args.config a))
                     (config.wandb_project (DistributedContrastive_args.config a))
                     (config.wandb_entity (DistributedContrastive_args.config a))
                     (config.wandb_group (DistributedContrastive_args.config a))
                     (config.wandb_mode (DistributedContrastive_args.config a))])"
  using init_Inr [OF assms]
  by (simp add: evaluator_factories_of_def Let_def split: option.splits)

text \<open>The statement at a call that supplies its own evaluator factory.\<close>
theorem C5_forwarding_witness:
  "\<exists>k. DistributedContrastive_init supplied_args = Inr k
      \<and> DistributedLayout_args.seed k = 0
      \<and> DistributedLayout_args.environment_factory k = 1
      \<and> DistributedLayout_args.environment_factory_fixed_goals k = 2
      \<and> DistributedLayout_args.network_factory k = 3
      \<and> DistributedLayout_args.num_actors k = 4
      \<and> DistributedLayout_args.max_number_of_steps k = None
      \<and> DistributedLayout_args.log_to_bigtable k = False
      \<and> DistributedLayout_args.config k = example_config
      \<and> DistributedLayout_args.evaluator_factories k = [EvaluatorFactory 9]"
proof -
  obtain k where k: "DistributedContrastive_init supplied_args = Inr k"
    using supplied_init by blast
  from C5_forwarding [OF k]
  have "DistributedLayout_args.seed k = 0
      \<and> DistributedLayout_args.environment_factory k = 1
      \<and> DistributedLayout_args.environment_factory_fixed_goals k = 2
      \<and> DistributedLayout_args.network_factory k = 3
      \<and> DistributedLayout_args.num_actors k = 4
      \<and> DistributedLayout_args.max_number_of_steps k = None
      \<and> DistributedLayout_args.log_to_bigtable k = False
      \<and> DistributedLayout_args.config k = example_config
      \<and> DistributedLayout_args.evaluator_factories k = [EvaluatorFactory 9]"
    by (simp add: supplied_args_def example_args_def)
  with k show ?thesis by blast
qed

text \<open>
  The assembler branches: with no evaluator factories supplied it builds one of its own,
  with \<^verbatim>\<open>config.local\<close> it hands on the empty list, and with
  \<^verbatim>\<open>max_episode_steps\<close> at 0 it hands on nothing and fails.
\<close>
theorem C5_counterexample:
  "DistributedContrastive_args.evaluator_factories example_args = None
   \<and> map_sum id DistributedLayout_args.evaluator_factories (DistributedContrastive_init example_args) =
       Inr [default_evaluator_factory 2 3 apply_policy_and_sample_eval False
              [SuccessObserver, DistanceObserver 4 0 2] ''logs/contrastive_nce_sawyer_push_0''
              True True ''contrastive-rl'' None None ''online'']
   \<and> map_sum id DistributedLayout_args.evaluator_factories (DistributedContrastive_init local_args) =
       Inr []
   \<and> DistributedContrastive_init unset_args = Inl AssertionError"
  by (simp add: example_init)
     (simp add: DistributedContrastive_init_def evaluator_factories_of_def Let_def
        local_args_def unset_args_def example_args_def example_config_def)

end
